theory Spec2Isabelle
  imports Main "HOL-Library.Char_ord" "HOL-Library.List_Lexorder"
begin

section \<open>JavaScript values\<close>

text \<open>
  The SDK is untyped JavaScript. A value is modelled by \<open>jsval\<close>. Numbers are the
  integers and \<open>NaN\<close> (the code only tests numbers for truthiness and for being
  \<open>0\<close>, and adds \<open>0\<close> to them); a string is the list of its characters
  (ASCII text; a character beyond ASCII is the list of its UTF-8 bytes); an array is
  the list of its elements; an object is the list of its own enumerable properties in
  the order of their creation. Functions are not values of the model, and the
  properties an object inherits from \<open>Object.prototype\<close> are not modelled.
\<close>

datatype jsval =
    JUndefined
  | JNull
  | JBool bool
  | JNum int
  | JNaN
  | JStr string
  | JArr "jsval list"
  | JObj "(string \<times> jsval) list"

datatype js_error = TypeError

text \<open>\<open>!!v\<close>: every value is truthy but \<open>undefined\<close>, \<open>null\<close>,
  \<open>false\<close>, \<open>0\<close>, \<open>NaN\<close> and the empty string.\<close>

fun truthy :: "jsval \<Rightarrow> bool" where
  "truthy JUndefined = False"
| "truthy JNull = False"
| "truthy (JBool b) = b"
| "truthy (JNum n) = (n \<noteq> 0)"
| "truthy JNaN = False"
| "truthy (JStr s) = (s \<noteq> [])"
| "truthy (JArr xs) = True"
| "truthy (JObj ps) = True"

text \<open>\<open>a || b\<close>.\<close>

definition js_or :: "jsval \<Rightarrow> jsval \<Rightarrow> jsval" where
  "js_or a b = (if truthy a then a else b)"

text \<open>Decimal digits of a number, as \<open>String(n)\<close> prints an integer.\<close>

function nat_dec :: "nat \<Rightarrow> string" where
  "nat_dec n = (if n < 10 then [char_of (48 + n)] else nat_dec (n div 10) @ [char_of (48 + n mod 10)])"
  by pat_completeness auto
termination
  by (relation "measure id") auto

definition int_dec :: "int \<Rightarrow> string" where
  "int_dec i = (if i < 0 then CHR ''-'' # nat_dec (nat (- i)) else nat_dec (nat i))"

text \<open>\<open>xs.join(sep)\<close> on strings.\<close>

fun join_with :: "string \<Rightarrow> string list \<Rightarrow> string" where
  "join_with sep [] = []"
| "join_with sep [x] = x"
| "join_with sep (x # y # ys) = x @ sep @ join_with sep (y # ys)"

text \<open>\<open>String(v)\<close>: an array prints its elements joined by a comma, \<open>null\<close> and
  \<open>undefined\<close> elements as the empty string; a plain object prints as
  \<open>[object Object]\<close>.\<close>

fun toString :: "jsval \<Rightarrow> string" where
  "toString JUndefined = ''undefined''"
| "toString JNull = ''null''"
| "toString (JBool b) = (if b then ''true'' else ''false'')"
| "toString (JNum n) = int_dec n"
| "toString JNaN = ''NaN''"
| "toString (JStr s) = s"
| "toString (JArr xs) =
     join_with '','' (map (\<lambda>x. if x = JUndefined \<or> x = JNull then [] else toString x) xs)"
| "toString (JObj ps) = ''[object Object]''"

text \<open>\<open>xs.join(sep)\<close> on an array of values.\<close>

definition js_join :: "string \<Rightarrow> jsval list \<Rightarrow> string" where
  "js_join sep xs =
     join_with sep (map (\<lambda>x. if x = JUndefined \<or> x = JNull then [] else toString x) xs)"

text \<open>\<open>a + b\<close>: concatenation when either operand is (or prints as) a string, the
  sum of the numbers otherwise.\<close>

fun toNumber :: "jsval \<Rightarrow> int option" where
  "toNumber (JNum n) = Some n"
| "toNumber (JBool b) = Some (if b then 1 else 0)"
| "toNumber JNull = Some 0"
| "toNumber v = None"

fun is_stringy :: "jsval \<Rightarrow> bool" where
  "is_stringy (JStr s) = True"
| "is_stringy (JArr xs) = True"
| "is_stringy (JObj ps) = True"
| "is_stringy v = False"

definition js_add :: "jsval \<Rightarrow> jsval \<Rightarrow> jsval" where
  "js_add a b =
     (if is_stringy a \<or> is_stringy b then JStr (toString a @ toString b)
      else (case (toNumber a, toNumber b) of
              (Some x, Some y) \<Rightarrow> JNum (x + y)
            | _ \<Rightarrow> JNaN))"

text \<open>\<open>s.replace(/c/g, r)\<close> for a single character \<open>c\<close>, \<open>s.replace(/c$/g, '')\<close>
  and \<open>s.toUpperCase()\<close> (on ASCII letters).\<close>

definition replace_all :: "char \<Rightarrow> string \<Rightarrow> string \<Rightarrow> string" where
  "replace_all c r s = concat (map (\<lambda>x. if x = c then r else [x]) s)"

definition strip_last :: "char \<Rightarrow> string \<Rightarrow> string" where
  "strip_last c s = (if s \<noteq> [] \<and> last s = c then butlast s else s)"

definition toUpperCase :: "string \<Rightarrow> string" where
  "toUpperCase s =
     map (\<lambda>c. if CHR ''a'' \<le> c \<and> c \<le> CHR ''z'' then char_of (of_char c - (32::nat)) else c) s"

section \<open>Objects\<close>

text \<open>
  An object is the list of its own properties in the order they were created; no key
  occurs twice. JavaScript enumerates the own keys of an object (\<open>Object.keys\<close>,
  \<open>for ... in\<close>) with the array indices first, in ascending numeric order, and the
  other keys after them in the order of their creation. An array index is the
  canonical decimal form of an integer below \<open>2^32 - 1\<close>. Keys are compared the
  way \<open>sort()\<close> compares strings, character by character, which is the order of
  \<open>string\<close> here.
\<close>

type_synonym 'v obj = "(string \<times> 'v) list"

type_synonym jsobj = "jsval obj"

definition is_digit :: "char \<Rightarrow> bool" where
  "is_digit c = (CHR ''0'' \<le> c \<and> c \<le> CHR ''9'')"

definition index_value :: "string \<Rightarrow> nat" where
  "index_value k = foldl (\<lambda>n c. 10 * n + (of_char c - 48)) 0 k"

definition is_array_index :: "string \<Rightarrow> bool" where
  "is_array_index k =
     (case k of
        [] \<Rightarrow> False
      | c # cs \<Rightarrow> list_all is_digit k \<and> (cs = [] \<or> c \<noteq> CHR ''0'') \<and> index_value k < 4294967295)"

definition own_entries :: "'v obj \<Rightarrow> 'v obj" where
  "own_entries ob =
     sort_key (\<lambda>p. index_value (fst p)) (filter (\<lambda>p. is_array_index (fst p)) ob)
     @ filter (\<lambda>p. \<not> is_array_index (fst p)) ob"

definition own_keys :: "'v obj \<Rightarrow> string list" where
  "own_keys ob = map fst (own_entries ob)"

text \<open>\<open>ob[k] = v\<close>: an existing property keeps its place, a new one is created last.\<close>

fun obj_set :: "'v obj \<Rightarrow> string \<Rightarrow> 'v \<Rightarrow> 'v obj" where
  "obj_set [] k v = [(k, v)]"
| "obj_set ((k', v') # ps) k v = (if k' = k then (k, v) # ps else (k', v') # obj_set ps k v)"

text \<open>\<open>delete ob[k]\<close>.\<close>

definition obj_delete :: "'v obj \<Rightarrow> string \<Rightarrow> 'v obj" where
  "obj_delete ob k = filter (\<lambda>p. fst p \<noteq> k) ob"

text \<open>\<open>ob[k]\<close> on an object of values: \<open>undefined\<close> for a key it does not have.\<close>

definition obj_read :: "jsobj \<Rightarrow> string \<Rightarrow> jsval" where
  "obj_read ob k = (case map_of ob k of Some v \<Rightarrow> v | None \<Rightarrow> JUndefined)"

text \<open>Modelled from the spec: \<open>extend\<close> is an npm dependency, not under src/. The spec
  has \<open>extend({}, params)\<close> clone the param map: every own property whose value is
  not \<open>undefined\<close> is copied onto the target, in enumeration order. It is
  \<open>extend_obj\<close> here.\<close>

definition extend_obj :: "jsobj \<Rightarrow> jsobj \<Rightarrow> jsobj" where
  "extend_obj target src =
     foldl (\<lambda>t p. if snd p = JUndefined then t else obj_set t (fst p) (snd p)) target (own_entries src)"

section \<open>The transport client\<close>

text \<open>
  The endpoint configuration \<open>this._opts\<close> of a \<open>CloudClient\<close>, with the types its
  documentation gives the options. The source's field \<open>method\<close> is \<open>method_opt\<close> here,
  and the functions \<open>_paramsFilter\<close>, \<open>_percentEncode\<close>, \<open>_signAliyun\<close>,
  \<open>_nonceAliyun\<close> and \<open>_httpRequest\<close> are named without the underscore.
\<close>

record client_opts =
  version :: string
  sdkVersion :: string
  method_opt :: string
  timeout :: int
  connect_timeout :: int
  host :: string
  protocol :: string
  gzip :: bool
  debug :: bool
  key_type :: string
  signatureMethod :: string
  signatureVersion :: string
  accessKeyId :: string
  secret :: string
  baseURI :: string

definition client_default_opts :: client_opts where
  "client_default_opts =
     \<lparr> version = ''v2'', sdkVersion = ''v2.0.6'', method_opt = ''GET'', timeout = 30,
       connect_timeout = 30, host = ''http://opensearch.aliyuncs.com'', protocol = ''http'',
       gzip = False, debug = False, key_type = ''aliyun'', signatureMethod = ''HMAC-SHA1'',
       signatureVersion = ''1.0'', accessKeyId = '''', secret = '''', baseURI = '''' \<rparr>"

text \<open>The constructor, from the options already merged over the defaults: a trailing
  slash of the host is dropped, and the host is the base URI.\<close>

definition CloudClient :: "client_opts \<Rightarrow> client_opts" where
  "CloudClient merged =
     (let h = strip_last CHR ''/'' (host merged) in merged\<lparr> host := h, baseURI := h \<rparr>)"

text \<open>
  What a call reads from outside the program: the clock (\<open>Date.now()\<close> in
  milliseconds), the integer \<open>parseInt(Math.random() * 8999 + 1000)\<close>, and the
  time stamp \<open>s2.getUTCDate\<close> formats.
\<close>

record env =
  now :: int
  random4 :: int
  utcDate :: string

definition nonceAliyun :: "env \<Rightarrow> string" where
  "nonceAliyun e = toString (js_add (js_add (JNum (now e)) (JStr '''')) (JNum (random4 e)))"

text \<open>\<open>_paramsFilter\<close>: the keys are sorted, and each key other than \<open>Signature\<close>
  whose value is truthy or \<open>0\<close> is set, in that order, on a new object.\<close>

definition paramsFilter :: "jsobj \<Rightarrow> jsobj" where
  "paramsFilter parameters =
     foldl (\<lambda>params k.
              if k \<noteq> ''Signature'' \<and> (truthy (obj_read parameters k) \<or> obj_read parameters k = JNum 0)
              then obj_set params k (obj_read parameters k)
              else params)
       [] (sort (own_keys parameters))"

text \<open>
  \<open>_percentEncode\<close>. The serializer \<open>s2.parseString\<close> belongs to the npm package
  \<open>small2\<close>, which is not under src/: it is the parameter \<open>parseString\<close>, applied to the
  value and the list of the further arguments of the call.
\<close>

definition percentEncode :: "(jsval \<Rightarrow> jsval list \<Rightarrow> string) \<Rightarrow> jsval \<Rightarrow> string" where
  "percentEncode parseString code =
     (let res = parseString code [JBool True];
          res = replace_all CHR ''*'' ''%2A'' res;
          res = replace_all CHR ''!'' ''%21'' res;
          res = replace_all CHR 0x27 ''%27'' res;
          res = replace_all CHR ''('' ''%28'' res;
          res = replace_all CHR '')'' ''%29'' res
      in res)"

text \<open>\<open>_signAliyun\<close>. \<open>utility.hmac\<close> is an npm dependency as well: the parameter
  \<open>hmac\<close>, applied to the algorithm name, the key and the data.\<close>

definition signAliyun ::
  "(string \<Rightarrow> string \<Rightarrow> string \<Rightarrow> string) \<Rightarrow> (jsval \<Rightarrow> jsval list \<Rightarrow> string) \<Rightarrow>
     jsobj \<Rightarrow> client_opts \<Rightarrow> string" where
  "signAliyun hmac parseString params opts =
     (let params1 = extend_obj [] params;
          params2 = (if obj_read params1 ''sign_mode'' = JNum 1 then obj_delete params1 ''items'' else params1);
          params3 = paramsFilter params2;
          query = percentEncode parseString (JObj params3);
          baseString = toUpperCase (method_opt opts) @ ''&%2F&'' @ percentEncode parseString (JStr query)
      in hmac ''sha1'' (secret opts @ ''&'') baseString)"

text \<open>\<open>_httpRequest\<close>: the request handed to the HTTP client.\<close>

record http_request =
  req_method :: string
  req_url :: string
  req_user_agent :: string
  req_timeout :: int
  req_gzip :: bool

definition httpRequest ::
  "(jsval \<Rightarrow> jsval list \<Rightarrow> string) \<Rightarrow> string \<Rightarrow> jsobj \<Rightarrow> client_opts \<Rightarrow> http_request" where
  "httpRequest parseString url params opts =
     (let paramSerialize = percentEncode parseString (JObj params);
          m = toUpperCase (method_opt opts);
          url1 = (if m = ''GET''
                  then url @ (if CHR ''?'' \<notin> set url then ''?'' else ''&'') @ paramSerialize
                  else url)
      in \<lparr> req_method = m, req_url = url1,
           req_user_agent = ''opensearch/node sdk '' @ sdkVersion opts,
           req_timeout = (if timeout opts \<noteq> 0 then timeout opts else 30),
           req_gzip = gzip opts \<rparr>)"

text \<open>
  \<open>callRequest\<close>: \<open>opts\<close> is the stored configuration itself, so the assignment to
  \<open>opts.method\<close> writes it. The result is the configuration after the call, the param
  map after the call, and the request issued (none unless the protocol is \<open>http\<close>).
  An omitted \<open>method\<close> is the empty string, an omitted \<open>params\<close> the empty object.
\<close>

definition callRequest ::
  "(string \<Rightarrow> string \<Rightarrow> string \<Rightarrow> string) \<Rightarrow> (jsval \<Rightarrow> jsval list \<Rightarrow> string) \<Rightarrow> env \<Rightarrow>
     client_opts \<Rightarrow> string \<Rightarrow> jsobj \<Rightarrow> string \<Rightarrow> client_opts \<times> jsobj \<times> http_request option" where
  "callRequest hmac parseString e this_opts path params0 m =
     (let url = baseURI this_opts @ path;
          opts = this_opts\<lparr> method_opt := (if m \<noteq> [] then m else method_opt this_opts) \<rparr>;
          params = obj_set params0 ''Version'' (JStr (version opts));
          params = obj_set params ''AccessKeyId'' (JStr (accessKeyId opts));
          params = obj_set params ''SignatureMethod'' (JStr (signatureMethod opts));
          params = obj_set params ''SignatureVersion'' (JStr (signatureVersion opts));
          params = obj_set params ''SignatureNonce'' (JStr (nonceAliyun e));
          params = obj_set params ''Timestamp'' (JStr (utcDate e));
          params = obj_set params ''Signature'' (JStr (signAliyun hmac parseString params opts))
      in (opts, params,
          if protocol opts = ''http'' then Some (httpRequest parseString url params opts) else None))"

section \<open>The query builder\<close>

text \<open>
  The query state \<open>this._opts\<close> of a \<open>CloudSearch\<close>. A clause that the code keeps
  in an object or an array has that shape here (the sort rules are an object from
  field to direction, the aggregate rules an object from group key to an array of
  rule objects, and so on); every other option is a value. The source's fields
  \<open>sort\<close>, \<open>distinct\<close>, \<open>functions\<close> and \<open>clauseConfig\<close> carry the suffix \<open>_opt\<close>.
  The constructor copies the defaults shallowly, so builders that were given no
  clause objects of their own share the default ones; the theorems below are about
  one builder and start from the state it is in.
\<close>

record search_opts =
  indexes :: "jsval list"
  summary :: "jsobj obj"
  clauseConfig_opt :: string
  format :: jsval
  start :: jsval
  hits :: jsval
  sort_opt :: jsobj
  filters :: jsval
  aggregate :: "jsobj list obj"
  distinct_opt :: "jsobj obj"
  fetches :: "jsval list"
  rerankSize :: jsval
  query :: jsval
  formulaName :: jsval
  firstFormulaName :: jsval
  kvpair :: jsval
  QPName :: "jsval list"
  functions_opt :: "jsval list obj"
  customParams :: jsobj
  scrollId :: jsval
  searchType :: jsval
  scroll :: jsval
  path :: string

definition search_default_opts :: search_opts where
  "search_default_opts =
     \<lparr> indexes = [], summary = [], clauseConfig_opt = '''', format = JStr ''json'',
       start = JNum 0, hits = JNum 20, sort_opt = [], filters = JStr '''', aggregate = [],
       distinct_opt = [], fetches = [], rerankSize = JNum 200, query = JStr '''',
       formulaName = JStr '''', firstFormulaName = JStr '''', kvpair = JStr '''', QPName = [],
       functions_opt = [], customParams = [], scrollId = JNull, searchType = JStr '''',
       scroll = JNull, path = ''/search'' \<rparr>"

definition SORT_DECREASE :: string where
  "SORT_DECREASE = ''-''"

definition SEARCH_TYPE_SCAN :: string where
  "SEARCH_TYPE_SCAN = ''scan''"

text \<open>\<open>!!c && (ob[k] = v)\<close> and \<open>(temp = v) && (ob[k] = temp)\<close>.\<close>

definition set_if :: "jsval \<Rightarrow> string \<Rightarrow> jsval \<Rightarrow> jsobj \<Rightarrow> jsobj" where
  "set_if c k v ob = (if truthy c then obj_set ob k v else ob)"

definition set_truthy :: "jsobj \<Rightarrow> string \<Rightarrow> jsval \<Rightarrow> jsobj" where
  "set_truthy ob k temp = (if truthy temp then obj_set ob k temp else ob)"

text \<open>\<open>(temp = v) && (ob[k] = temp.join(sep))\<close>: only an array has a \<open>join\<close>.\<close>

definition set_joined :: "jsobj \<Rightarrow> string \<Rightarrow> string \<Rightarrow> jsval \<Rightarrow> js_error + jsobj" where
  "set_joined ob k sep temp =
     (if truthy temp
      then (case temp of JArr xs \<Rightarrow> Inr (obj_set ob k (JStr (js_join sep xs))) | _ \<Rightarrow> Inl TypeError)
      else Inr ob)"

text \<open>\<open>xs.concat(v)\<close>: a new array; \<open>xs\<close> itself is not changed.\<close>

definition js_concat :: "jsval list \<Rightarrow> jsval \<Rightarrow> jsval list" where
  "js_concat xs v = (case v of JArr ys \<Rightarrow> xs @ ys | _ \<Rightarrow> xs @ [v])"

text \<open>\<open>ob[k] || []\<close> on an object of arrays.\<close>

definition obj_list :: "'a list obj \<Rightarrow> string \<Rightarrow> 'a list" where
  "obj_list ob k = (case map_of ob k of Some xs \<Rightarrow> xs | None \<Rightarrow> [])"

subsection \<open>Setters and adders\<close>

definition setScrollId :: "jsval \<Rightarrow> search_opts \<Rightarrow> search_opts" where
  "setScrollId v s = s\<lparr> scrollId := v \<rparr>"

text \<open>
  \<open>addIndex\<close>. Reading \<open>indexName.map\<close> throws on \<open>undefined\<close> and \<open>null\<close>. An array
  has a \<open>map\<close>, and its callback reads \<open>self.indexes.indexOf\<close>, where \<open>self.indexes\<close>
  is undefined (the list is \<open>self._opts.indexes\<close>): the first element throws. An
  object with a truthy own \<open>map\<close> is called as a function, which no value of the model
  is. Everything else is pushed.
\<close>

definition addIndex :: "jsval \<Rightarrow> search_opts \<Rightarrow> js_error + search_opts" where
  "addIndex indexName s =
     (let indexes0 = indexes s in
      case indexName of
        JUndefined \<Rightarrow> Inl TypeError
      | JNull \<Rightarrow> Inl TypeError
      | JArr es \<Rightarrow> (if es = [] then Inr (s\<lparr> indexes := indexes0 \<rparr>) else Inl TypeError)
      | JObj ob \<Rightarrow>
          (if truthy (obj_read ob ''map'') then Inl TypeError
           else Inr (s\<lparr> indexes := indexes0 @ [indexName] \<rparr>))
      | _ \<Rightarrow> Inr (s\<lparr> indexes := indexes0 @ [indexName] \<rparr>))"

definition setFormulaName :: "jsval \<Rightarrow> search_opts \<Rightarrow> search_opts" where
  "setFormulaName v s = s\<lparr> formulaName := v \<rparr>"

definition setFirstFormulaName :: "jsval \<Rightarrow> search_opts \<Rightarrow> search_opts" where
  "setFirstFormulaName v s = s\<lparr> firstFormulaName := v \<rparr>"

text \<open>\<open>addSummary\<close>: nothing is stored (and \<open>false\<close> is returned) without a field
  name.\<close>

definition addSummary ::
  "jsval \<Rightarrow> jsval \<Rightarrow> jsval \<Rightarrow> jsval \<Rightarrow> jsval \<Rightarrow> jsval \<Rightarrow> jsval \<Rightarrow> search_opts \<Rightarrow> search_opts" where
  "addSummary fieldName len element ellipsis snipped elementPrefix elementPostfix s =
     (if \<not> truthy fieldName then s
      else
        (let sm = obj_set [] ''summary_field'' fieldName;
             sm = set_if len ''summary_len'' (js_add len (JNum 0)) sm;
             sm = set_if element ''summary_element'' element sm;
             sm = set_if ellipsis ''summary_ellipsis'' ellipsis sm;
             sm = set_if snipped ''summary_snipped'' (js_add snipped (JNum 0)) sm;
             sm = set_if elementPrefix ''summary_element_prefix'' elementPrefix sm;
             sm = set_if elementPostfix ''summary_element_postfix'' elementPostfix sm
         in s\<lparr> summary := obj_set (summary s) (toString fieldName) sm \<rparr>))"

definition setFormat :: "jsval \<Rightarrow> search_opts \<Rightarrow> search_opts" where
  "setFormat v s = s\<lparr> format := v \<rparr>"

definition setStartHit :: "jsval \<Rightarrow> search_opts \<Rightarrow> search_opts" where
  "setStartHit v s = s\<lparr> start := js_add v (JNum 0) \<rparr>"

definition setHits :: "jsval \<Rightarrow> search_opts \<Rightarrow> search_opts" where
  "setHits h s = s\<lparr> hits := js_or h (JNum 20) \<rparr>"

definition getHits :: "search_opts \<Rightarrow> jsval" where
  "getHits s = hits s"

text \<open>\<open>addSort\<close>: nothing is stored (and \<open>false\<close> is returned) without a field.\<close>

definition addSort :: "jsval \<Rightarrow> jsval \<Rightarrow> search_opts \<Rightarrow> search_opts" where
  "addSort field sortChar s =
     (if \<not> truthy field then s
      else s\<lparr> sort_opt := obj_set (sort_opt s) (toString field) (js_or sortChar (JStr SORT_DECREASE)) \<rparr>)"

definition removeSort :: "jsval \<Rightarrow> search_opts \<Rightarrow> search_opts" where
  "removeSort field s = s\<lparr> sort_opt := obj_delete (sort_opt s) (toString field) \<rparr>"

definition addFilter :: "jsval \<Rightarrow> jsval \<Rightarrow> search_opts \<Rightarrow> search_opts" where
  "addFilter filter0 operator0 s =
     (let operator = js_or operator0 (JStr ''AND'') in
      if \<not> truthy (filters s) \<and> truthy filter0 then s\<lparr> filters := filter0 \<rparr>
      else if truthy filter0
      then s\<lparr> filters := js_add (filters s) (JStr ('' '' @ toString operator @ '' '' @ toString filter0)) \<rparr>
      else s)"

definition addAggregate ::
  "jsval \<Rightarrow> jsval \<Rightarrow> jsval \<Rightarrow> jsval \<Rightarrow> jsval \<Rightarrow> jsval \<Rightarrow> jsval \<Rightarrow> search_opts \<Rightarrow> search_opts" where
  "addAggregate groupKey aggFun range0 maxGroup aggFilter aggSamplerThresHold aggSamplerStep s =
     (if \<not> truthy groupKey \<or> \<not> truthy aggFun then s
      else
        (let ag = obj_set [] ''group_key'' groupKey;
             ag = obj_set ag ''agg_fun'' aggFun;
             ag = set_if range0 ''range'' range0 ag;
             ag = set_if maxGroup ''max_group'' maxGroup ag;
             ag = set_if aggFilter ''agg_filter'' aggFilter ag;
             ag = set_if aggSamplerThresHold ''agg_sampler_threshold'' aggSamplerThresHold ag;
             ag = set_if aggSamplerStep ''agg_sampler_step'' aggSamplerStep ag;
             k = toString groupKey
         in s\<lparr> aggregate := obj_set (aggregate s) k (obj_list (aggregate s) k @ [ag]) \<rparr>))"

definition addDistinct ::
  "jsval \<Rightarrow> jsval \<Rightarrow> jsval \<Rightarrow> jsval \<Rightarrow> jsval \<Rightarrow> jsval \<Rightarrow> jsval \<Rightarrow> jsval \<Rightarrow> search_opts \<Rightarrow> search_opts" where
  "addDistinct key distCount distTimes reserved distFilter updateTotalHit maxItemCount grade s =
     (if \<not> truthy key then s
      else
        (let d = obj_set [] ''dist_key'' key;
             d = set_if distCount ''dist_count'' (js_add distCount (JNum 0)) d;
             d = set_if distTimes ''dist_times'' (js_add distTimes (JNum 0)) d;
             d = set_if reserved ''reserved'' reserved d;
             d = set_if distFilter ''dist_filter'' distFilter d;
             d = set_if updateTotalHit ''update_total_hit'' updateTotalHit d;
             d = set_if maxItemCount ''max_item_count'' (js_add maxItemCount (JNum 0)) d;
             d = set_if grade ''grade'' grade d
         in s\<lparr> distinct_opt := obj_set (distinct_opt s) (toString key) d \<rparr>))"

definition setQueryString :: "jsval \<Rightarrow> search_opts \<Rightarrow> search_opts" where
  "setQueryString v s = s\<lparr> query := v \<rparr>"

text \<open>
  \<open>addFetchFields\<close>. Reading \<open>field.map\<close> throws on \<open>undefined\<close> and \<open>null\<close>. The
  callback of an array reads \<open>this._opts.indexOf\<close> with \<open>this\<close> not the builder, and
  throws at the first element. Every other argument reaches
  \<open>this._opts.indexOf(field)\<close>, and the options object has no \<open>indexOf\<close>.
\<close>

definition addFetchFields :: "jsval \<Rightarrow> search_opts \<Rightarrow> js_error + search_opts" where
  "addFetchFields field s =
     (let fetches0 = fetches s in
      case field of
        JArr es \<Rightarrow> (if es = [] then Inr (s\<lparr> fetches := fetches0 \<rparr>) else Inl TypeError)
      | _ \<Rightarrow> Inl TypeError)"

definition setPair :: "jsval \<Rightarrow> search_opts \<Rightarrow> search_opts" where
  "setPair v s = s\<lparr> kvpair := v \<rparr>"

definition addCustomParam :: "jsval \<Rightarrow> jsval \<Rightarrow> search_opts \<Rightarrow> search_opts" where
  "addCustomParam paramKey paramValue s =
     s\<lparr> customParams := obj_set (customParams s) (toString paramKey) paramValue \<rparr>"

definition addRerankSize :: "jsval \<Rightarrow> search_opts \<Rightarrow> search_opts" where
  "addRerankSize v s = s\<lparr> rerankSize := v \<rparr>"

text \<open>\<open>addQPName\<close> and \<open>addDisabledFunction\<close>: the array \<open>concat\<close> returns is
  dropped, and the array that was read is stored back.\<close>

definition addQPName :: "jsval \<Rightarrow> search_opts \<Rightarrow> search_opts" where
  "addQPName name s =
     (let qp = QPName s;
          dropped = js_concat qp name
      in s\<lparr> QPName := qp \<rparr>)"

definition addDisabledFunction :: "jsval \<Rightarrow> jsval \<Rightarrow> search_opts \<Rightarrow> search_opts" where
  "addDisabledFunction functionName disableValue s =
     (let fs = obj_list (functions_opt s) (toString functionName) in
      if \<not> truthy disableValue then s
      else
        (let dropped = js_concat fs disableValue
         in s\<lparr> functions_opt := obj_set (functions_opt s) (toString functionName) fs \<rparr>))"

definition addDisabledQP :: "jsval \<Rightarrow> search_opts \<Rightarrow> search_opts" where
  "addDisabledQP disableValue s = addDisabledFunction (JStr ''qp'') disableValue s"

definition setScroll :: "jsval \<Rightarrow> search_opts \<Rightarrow> search_opts" where
  "setScroll v s = s\<lparr> scroll := v \<rparr>"

definition setSearchType :: "jsval \<Rightarrow> search_opts \<Rightarrow> search_opts" where
  "setSearchType v s = s\<lparr> searchType := v \<rparr>"

subsection \<open>Clause strings\<close>

text \<open>\<open>getSortString\<close>: \<open>for (k in sort)\<close> appends direction, field and \<open>;\<close>, and the
  last \<open>;\<close> is removed.\<close>

definition getSortString :: "search_opts \<Rightarrow> string" where
  "getSortString s =
     strip_last CHR '';''
       (foldl (\<lambda>sortString p. sortString @ toString (snd p) @ fst p @ '';'') []
          (own_entries (sort_opt s)))"

definition getSummaryString :: "(jsval \<Rightarrow> jsval list \<Rightarrow> string) \<Rightarrow> search_opts \<Rightarrow> string" where
  "getSummaryString parseString s =
     join_with '';''
       (map (\<lambda>p. parseString (JObj (snd p)) [JBool False, JStr '','', JStr '':''])
          (own_entries (summary s)))"

definition getAggregateString :: "(jsval \<Rightarrow> jsval list \<Rightarrow> string) \<Rightarrow> search_opts \<Rightarrow> string" where
  "getAggregateString parseString s =
     join_with '';''
       (concat (map (\<lambda>p. map (\<lambda>e. parseString (JObj e) [JBool False, JStr '','', JStr '':'']) (snd p))
          (own_entries (aggregate s))))"

definition getDistinctString :: "(jsval \<Rightarrow> jsval list \<Rightarrow> string) \<Rightarrow> search_opts \<Rightarrow> string" where
  "getDistinctString parseString s =
     join_with '';''
       (map (\<lambda>p. parseString (JObj (snd p)) [JBool False, JStr '','', JStr '':''])
          (own_entries (distinct_opt s)))"

definition getDisabledFunctionString :: "search_opts \<Rightarrow> string" where
  "getDisabledFunctionString s =
     join_with '';'' (map (\<lambda>p. fst p @ '':'' @ js_join '','' (snd p)) (own_entries (functions_opt s)))"

definition clauseConfig :: "search_opts \<Rightarrow> string" where
  "clauseConfig s =
     join_with '',''
       ([''format:'' @ toString (format s), ''start:'' @ toString (start s), ''hit:'' @ toString (hits s)]
        @ (if truthy (rerankSize s) then [''rerank_size:'' @ toString (rerankSize s)] else []))"

subsection \<open>Building a call\<close>

text \<open>
  \<open>callQuery\<close>, in two steps: the clause object \<open>haquery\<close>, and the param map handed
  to the client. \<open>s2.goneEmpty\<close> belongs to the package \<open>small2\<close> as well: it is the
  parameter \<open>goneEmpty\<close>. An omitted \<open>type\<close> is the empty string.
\<close>

definition haquery ::
  "(jsval \<Rightarrow> jsval list \<Rightarrow> string) \<Rightarrow> (jsval \<Rightarrow> jsval) \<Rightarrow> string \<Rightarrow> search_opts \<Rightarrow> jsobj" where
  "haquery parseString goneEmpty type0 s =
     (let type1 = (if type0 \<noteq> [] then type0 else ''search'');
          h = obj_set [] ''query'' (js_add (js_or (query s) (JStr [CHR 0x27, CHR 0x27])) (JStr ''''));
          h = obj_set h ''config'' (JStr (clauseConfig s));
          h = set_truthy h ''filter'' (goneEmpty (filters s));
          h = set_truthy h ''kvpairs'' (goneEmpty (kvpair s))
      in if type1 = ''search''
         then
           (let h = set_truthy h ''sort'' (goneEmpty (JStr (getSortString s)));
                h = set_truthy h ''distinct'' (goneEmpty (JStr (getDistinctString parseString s)));
                h = set_truthy h ''aggregate'' (goneEmpty (JStr (getAggregateString parseString s)))
            in h)
         else h)"

definition callQuery_params ::
  "(jsval \<Rightarrow> jsval list \<Rightarrow> string) \<Rightarrow> (jsval \<Rightarrow> jsval) \<Rightarrow> string \<Rightarrow> search_opts \<Rightarrow> js_error + jsobj" where
  "callQuery_params parseString goneEmpty type0 s =
     (let type1 = (if type0 \<noteq> [] then type0 else ''search'');
          params =
            [(''query'', JStr (replace_all CHR ''&'' ''&&'' (parseString (JObj (haquery parseString goneEmpty type0 s)) []))),
             (''index_name'', JStr (js_join '';'' (indexes s))),
             (''Format'', format s)];
          params = foldl (\<lambda>ps p. obj_set ps (fst p) (snd p)) params (own_entries (customParams s))
      in case set_joined params ''fetch_fields'' '';'' (goneEmpty (JArr (fetches s))) of
           Inl err \<Rightarrow> Inl err
         | Inr params \<Rightarrow>
             if type1 = ''search''
             then
               (let params = set_truthy params ''formula_name'' (goneEmpty (formulaName s));
                    params = set_truthy params ''first_formula_name'' (goneEmpty (firstFormulaName s));
                    params = set_truthy params ''summary'' (goneEmpty (JStr (getSummaryString parseString s)))
                in case set_joined params ''qp'' '','' (goneEmpty (JArr (QPName s))) of
                     Inl err \<Rightarrow> Inl err
                   | Inr params \<Rightarrow>
                       Inr (set_truthy params ''disable'' (goneEmpty (JStr (getDisabledFunctionString s)))))
             else if type1 = ''scroll''
             then
               (let params = set_truthy params ''scroll'' (goneEmpty (scroll s));
                    params = set_truthy params ''scroll_id'' (goneEmpty (scrollId s));
                    params = obj_set params ''search_type'' (JStr SEARCH_TYPE_SCAN)
                in Inr params)
             else Inr params)"

definition callQuery ::
  "(string \<Rightarrow> string \<Rightarrow> string \<Rightarrow> string) \<Rightarrow> (jsval \<Rightarrow> jsval list \<Rightarrow> string) \<Rightarrow> (jsval \<Rightarrow> jsval) \<Rightarrow>
     env \<Rightarrow> client_opts \<Rightarrow> string \<Rightarrow> search_opts \<Rightarrow>
     js_error + client_opts \<times> jsobj \<times> http_request option" where
  "callQuery hmac parseString goneEmpty e client type0 s =
     (case callQuery_params parseString goneEmpty type0 s of
        Inl err \<Rightarrow> Inl err
      | Inr params \<Rightarrow> Inr (callRequest hmac parseString e client (path s) params ''GET''))"

text \<open>
  The one-shot options of \<open>search\<close> and \<open>scroll\<close>. An option that is not given is
  \<open>undefined\<close>; a clause object, when given, has the shape of the state field it
  replaces.
\<close>

record call_opts =
  opt_query :: jsval
  opt_fetch_field :: jsval
  opt_format :: jsval
  opt_start :: jsval
  opt_hits :: jsval
  opt_filters :: jsval
  opt_kvpair :: jsval
  opt_rerankSize :: jsval
  opt_sort :: "jsobj option"
  opt_aggregate :: "jsobj list obj option"
  opt_distinct :: "jsobj obj option"
  opt_formula_name :: jsval
  opt_summary :: "jsobj obj option"
  opt_qp :: jsval
  opt_disable_qp :: jsval
  opt_disable :: jsval
  opt_scroll_id :: jsval
  opt_scroll :: jsval

definition no_call_opts :: call_opts where
  "no_call_opts =
     \<lparr> opt_query = JUndefined, opt_fetch_field = JUndefined, opt_format = JUndefined,
       opt_start = JUndefined, opt_hits = JUndefined, opt_filters = JUndefined,
       opt_kvpair = JUndefined, opt_rerankSize = JUndefined, opt_sort = None,
       opt_aggregate = None, opt_distinct = None, opt_formula_name = JUndefined,
       opt_summary = None, opt_qp = JUndefined, opt_disable_qp = JUndefined,
       opt_disable = JUndefined, opt_scroll_id = JUndefined, opt_scroll = JUndefined \<rparr>"

text \<open>\<open>!!v && f(v)\<close> on the state.\<close>

definition when_truthy :: "jsval \<Rightarrow> (jsval \<Rightarrow> search_opts \<Rightarrow> search_opts) \<Rightarrow> search_opts \<Rightarrow> search_opts" where
  "when_truthy v f s = (if truthy v then f v s else s)"

text \<open>\<open>extract\<close>, named \<open>extract_opts\<close> here.\<close>

definition extract_opts :: "call_opts \<Rightarrow> string \<Rightarrow> search_opts \<Rightarrow> js_error + search_opts" where
  "extract_opts opts type0 s =
     (let type1 = (if type0 \<noteq> [] then type0 else ''search'');
          s = when_truthy (opt_query opts) setQueryString s
      in case (if truthy (opt_fetch_field opts) then addFetchFields (opt_fetch_field opts) s else Inr s) of
           Inl err \<Rightarrow> Inl err
         | Inr s \<Rightarrow>
             (let s = when_truthy (opt_format opts) setFormat s;
                  s = when_truthy (opt_start opts) setStartHit s;
                  s = when_truthy (opt_hits opts) setHits s;
                  s = when_truthy (opt_filters opts) (\<lambda>v. addFilter v JUndefined) s;
                  s = when_truthy (opt_kvpair opts) setPair s;
                  s = when_truthy (opt_rerankSize opts) addRerankSize s
              in if type1 = ''search''
                 then
                   (let s = (case opt_sort opts of Some v \<Rightarrow> s\<lparr> sort_opt := v \<rparr> | None \<Rightarrow> s);
                        s = (case opt_aggregate opts of Some v \<Rightarrow> s\<lparr> aggregate := v \<rparr> | None \<Rightarrow> s);
                        s = (case opt_distinct opts of Some v \<Rightarrow> s\<lparr> distinct_opt := v \<rparr> | None \<Rightarrow> s);
                        s = when_truthy (opt_formula_name opts) setFormulaName s;
                        s = (case opt_summary opts of Some v \<Rightarrow> s\<lparr> summary := v \<rparr> | None \<Rightarrow> s);
                        s = when_truthy (opt_qp opts) addQPName s;
                        s = (if truthy (opt_disable_qp opts) then addDisabledQP (opt_disable opts) s else s)
                    in Inr s)
                 else if type1 = ''scroll''
                 then
                   (let s = when_truthy (opt_scroll_id opts) setScrollId s;
                        s = when_truthy (opt_scroll opts) setScroll s;
                        s = setSearchType (JStr SEARCH_TYPE_SCAN) s
                    in Inr s)
                 else Inr s))"

text \<open>\<open>scroll(opts)\<close> and \<open>search(opts)\<close>, up to the param map: the state after the
  call and the map handed to the client.\<close>

definition scroll_call ::
  "(jsval \<Rightarrow> jsval list \<Rightarrow> string) \<Rightarrow> (jsval \<Rightarrow> jsval) \<Rightarrow> call_opts \<Rightarrow> search_opts \<Rightarrow>
     js_error + search_opts \<times> jsobj" where
  "scroll_call parseString goneEmpty opts s =
     (case extract_opts opts ''scroll'' s of
        Inl err \<Rightarrow> Inl err
      | Inr s1 \<Rightarrow>
          (case callQuery_params parseString goneEmpty ''scroll'' s1 of
             Inl err \<Rightarrow> Inl err
           | Inr params \<Rightarrow> Inr (s1, params)))"

definition search_call ::
  "(jsval \<Rightarrow> jsval list \<Rightarrow> string) \<Rightarrow> (jsval \<Rightarrow> jsval) \<Rightarrow> call_opts \<Rightarrow> search_opts \<Rightarrow>
     js_error + search_opts \<times> jsobj" where
  "search_call parseString goneEmpty opts s =
     (case extract_opts opts '''' s of
        Inl err \<Rightarrow> Inl err
      | Inr s1 \<Rightarrow>
          (case callQuery_params parseString goneEmpty '''' s1 of
             Inl err \<Rightarrow> Inl err
           | Inr params \<Rightarrow> Inr (s1, params)))"

section \<open>The dependencies, as the spec describes them\<close>

text \<open>Modelled from the spec: the standard percent-encoding (the source's comment
  names \<open>encodeURIComponent\<close>), which is not under src/. Letters, digits and
  \<open>- _ . ! ~ * ' ( )\<close> stand for themselves; every other byte is \<open>%\<close> and its two
  upper-case hexadecimal digits.\<close>

definition hex_digit :: "nat \<Rightarrow> char" where
  "hex_digit n = (if n < 10 then char_of (48 + n) else char_of (55 + n))"

definition is_unreserved :: "char \<Rightarrow> bool" where
  "is_unreserved c =
     ((CHR ''a'' \<le> c \<and> c \<le> CHR ''z'') \<or> (CHR ''A'' \<le> c \<and> c \<le> CHR ''Z'') \<or> is_digit c
      \<or> c \<in> set [CHR ''-'', CHR ''_'', CHR ''.'', CHR ''!'', CHR ''~'', CHR ''*'', CHR 0x27, CHR ''('', CHR '')''])"

definition encodeURIComponent :: "string \<Rightarrow> string" where
  "encodeURIComponent s =
     concat (map (\<lambda>c. if is_unreserved c then [c]
                       else [CHR ''%'', hex_digit (of_char c div 16), hex_digit (of_char c mod 16)]) s)"

text \<open>Modelled from the spec: \<open>s2.parseString(code, encode, sep, eq)\<close> of the package
  \<open>small2\<close>, which is not under src/. An object is rendered from its own keys, each
  entry with a truthy value as key, \<open>eq\<close> and value, the entries joined by \<open>sep\<close>;
  the separators default to those of a query string. Any other value is rendered as
  its string. The values are percent-encoded when \<open>encode\<close> is set.\<close>

definition nth_arg :: "jsval list \<Rightarrow> nat \<Rightarrow> jsval" where
  "nth_arg args i = (if i < length args then args ! i else JUndefined)"

definition parseString_spec :: "jsval \<Rightarrow> jsval list \<Rightarrow> string" where
  "parseString_spec code args =
     (let enc = (\<lambda>v. if truthy (nth_arg args 0) then encodeURIComponent (toString v) else toString v);
          sep = (case nth_arg args 1 of JStr x \<Rightarrow> x | _ \<Rightarrow> ''&'');
          eq = (case nth_arg args 2 of JStr x \<Rightarrow> x | _ \<Rightarrow> ''='')
      in case code of
           JObj ps \<Rightarrow> join_with sep (map (\<lambda>p. fst p @ eq @ enc (snd p)) (filter (\<lambda>p. truthy (snd p)) (own_entries ps)))
         | _ \<Rightarrow> enc code)"

text \<open>Modelled from the spec: \<open>s2.goneEmpty\<close> of the package \<open>small2\<close>, which is not
  under src/. A clause is appended only when its serialized form is non-empty: an
  empty string, array or object, \<open>null\<close> and \<open>undefined\<close> give \<open>undefined\<close>, and every
  other value is returned as it is.\<close>

definition goneEmpty_spec :: "jsval \<Rightarrow> jsval" where
  "goneEmpty_spec v =
     (if v = JStr [] \<or> v = JArr [] \<or> v = JObj [] \<or> v = JNull then JUndefined else v)"

section \<open>The claims' own words\<close>

text \<open>The provider's fixups, as the spec lists them: \<open>*\<close>, \<open>!\<close>, \<open>'\<close>, \<open>(\<close> and \<open>)\<close>
  become \<open>%2A\<close>, \<open>%21\<close>, \<open>%27\<close>, \<open>%28\<close> and \<open>%29\<close>.\<close>

definition provider_fixup :: "char \<Rightarrow> string" where
  "provider_fixup c =
     (if c = CHR ''*'' then ''%2A''
      else if c = CHR ''!'' then ''%21''
      else if c = CHR 0x27 then ''%27''
      else if c = CHR ''('' then ''%28''
      else if c = CHR '')'' then ''%29''
      else [c])"

text \<open>The filter of the signature, as the spec words it: a key is kept unless it is
  \<open>Signature\<close> or its value is falsy and not \<open>0\<close>.\<close>

definition kept_for_signing :: "jsobj \<Rightarrow> string \<Rightarrow> bool" where
  "kept_for_signing p k = (k \<noteq> ''Signature'' \<and> (truthy (obj_read p k) \<or> obj_read p k = JNum 0))"

text \<open>What \<open>(temp = v) && (ob[k] = temp.join(sep))\<close> accepts: an array, or a falsy
  value.\<close>

definition joinable :: "jsval \<Rightarrow> bool" where
  "joinable v = (case v of JArr xs \<Rightarrow> True | _ \<Rightarrow> \<not> truthy v)"

section \<open>Objects: basic facts\<close>

lemma map_fst_obj_set:
  "map fst (obj_set ps k v) = (if k \<in> fst ` set ps then map fst ps else map fst ps @ [k])"
  by (induction ps) (auto simp: rev_image_eqI)

lemma distinct_obj_set: "distinct (map fst ps) \<Longrightarrow> distinct (map fst (obj_set ps k v))"
  by (simp add: map_fst_obj_set)

lemma keys_obj_set: "fst ` set (obj_set ps k v) = insert k (fst ` set ps)"
proof -
  have "set (map fst (obj_set ps k v)) = insert k (set (map fst ps))"
    unfolding map_fst_obj_set by auto
  then show ?thesis by simp
qed

lemma map_of_obj_set: "map_of (obj_set ps k v) = (map_of ps)(k \<mapsto> v)"
  by (induction ps) (auto simp: fun_eq_iff)

lemma obj_read_obj_set: "obj_read (obj_set ps k v) k' = (if k' = k then v else obj_read ps k')"
  by (simp add: obj_read_def map_of_obj_set)

lemma obj_set_fresh: "k \<notin> fst ` set ps \<Longrightarrow> obj_set ps k v = ps @ [(k, v)]"
  by (induction ps) auto

lemma set_own_entries: "set (own_entries ob) = set ob"
  by (auto simp: own_entries_def)

lemma distinct_own_entries: "distinct (map fst ob) \<Longrightarrow> distinct (map fst (own_entries ob))"
proof -
  assume d: "distinct (map fst ob)"
  then have "distinct ob" and inj: "inj_on fst (set ob)"
    by (simp_all add: distinct_map)
  then have "distinct (own_entries ob)"
    by (auto simp: own_entries_def)
  with inj show ?thesis
    by (simp add: distinct_map set_own_entries)
qed


lemma own_entries_no_index:
  "list_all (\<lambda>p. \<not> is_array_index (fst p)) ob \<Longrightarrow> own_entries ob = ob"
  by (simp add: own_entries_def list_all_iff filter_empty_conv filter_id_conv)






section \<open>The signature's canonical map\<close>

lemma paramsFilter_fold:
  "distinct ks \<Longrightarrow> set ks \<inter> fst ` set acc = {} \<Longrightarrow>
   foldl (\<lambda>params k.
              if k \<noteq> ''Signature'' \<and> (truthy (obj_read p k) \<or> obj_read p k = JNum 0)
              then obj_set params k (obj_read p k)
              else params) acc ks
   = acc @ map (\<lambda>k. (k, obj_read p k)) (filter (kept_for_signing p) ks)"
proof (induction ks arbitrary: acc)
  case Nil
  then show ?case by simp
next
  case (Cons k ks)
  then show ?case
    by (auto simp: kept_for_signing_def obj_set_fresh)
qed

lemma sort_own_keys: "distinct (map fst p) \<Longrightarrow> sort (own_keys p) = sort (map fst p)"
proof -
  assume d: "distinct (map fst p)"
  have "set (own_keys p) = set (map fst p)"
    by (simp add: own_keys_def set_own_entries)
  moreover have "distinct (own_keys p)"
    using d by (simp add: own_keys_def distinct_own_entries)
  ultimately show ?thesis
    using d by (intro sorted_distinct_set_unique) simp_all
qed

text \<open>The properties of the filtered map are created in ascending order of their
  keys: the kept keys, sorted, each with the value it had.\<close>

lemma paramsFilter_sorted:
  "distinct (map fst p) \<Longrightarrow>
   paramsFilter p = map (\<lambda>k. (k, obj_read p k)) (filter (kept_for_signing p) (sort (map fst p)))"
  using paramsFilter_fold[of "sort (map fst p)" "[]" p]
  by (simp add: paramsFilter_def sort_own_keys)


text \<open>Enumerated, the filtered map is in that order as long as no kept key is an
  array index.\<close>

lemma paramsFilter_enumerated:
  assumes "distinct (map fst p)"
    and "list_all (\<lambda>k. \<not> is_array_index k) (filter (kept_for_signing p) (map fst p))"
  shows "own_keys (paramsFilter p) = filter (kept_for_signing p) (sort (map fst p))"
proof -
  have "list_all (\<lambda>p. \<not> is_array_index (fst p)) (paramsFilter p)"
    using assms by (simp add: paramsFilter_sorted list_all_iff)
  then show ?thesis
    using assms(1) by (simp add: own_keys_def own_entries_no_index paramsFilter_sorted comp_def)
qed


subsection \<open>The clone\<close>








subsection \<open>The fixups\<close>

lemma replace_chain:
  "replace_all CHR '')'' ''%29'' (replace_all CHR ''('' ''%28'' (replace_all CHR 0x27 ''%27''
     (replace_all CHR ''!'' ''%21'' (replace_all CHR ''*'' ''%2A'' s))))
   = concat (map provider_fixup s)"
  by (induction s) (simp_all add: replace_all_def provider_fixup_def)

section \<open>The sort clause\<close>

lemma sort_entries_concat:
  "foldl (\<lambda>sortString p. sortString @ toString (snd p) @ fst p @ '';'') a es
   = a @ concat (map (\<lambda>p. toString (snd p) @ fst p @ '';'') es)"
  by (induction es arbitrary: a) simp_all

lemma strip_last_append: "b \<noteq> [] \<Longrightarrow> strip_last c (a @ b) = a @ strip_last c b"
  by (simp add: strip_last_def butlast_append)

lemma strip_last_joined:
  "strip_last CHR '';'' (concat (map (\<lambda>x. x @ '';'') xs)) = join_with '';'' xs"
proof (induction xs)
  case Nil
  then show ?case by (simp add: strip_last_def)
next
  case (Cons x xs)
  show ?case
  proof (cases xs)
    case Nil
    then show ?thesis by (simp add: strip_last_def)
  next
    case (Cons y ys)
    have "strip_last CHR '';'' ((x @ '';'') @ concat (map (\<lambda>x. x @ '';'') xs))
        = (x @ '';'') @ strip_last CHR '';'' (concat (map (\<lambda>x. x @ '';'') xs))"
      using Cons by (intro strip_last_append) simp
    with Cons.IH Cons show ?thesis by simp
  qed
qed

lemma getSortString_entries:
  "list_all (\<lambda>p. \<not> is_array_index (fst p)) (sort_opt s) \<Longrightarrow>
   getSortString s = join_with '';'' (map (\<lambda>p. toString (snd p) @ fst p) (sort_opt s))"
  using strip_last_joined[of "map (\<lambda>p. toString (snd p) @ fst p) (sort_opt s)"]
  by (simp add: getSortString_def own_entries_no_index sort_entries_concat comp_def)

lemma addSort_all:
  "distinct (map fst fds) \<Longrightarrow> list_all (\<lambda>p. fst p \<noteq> [] \<and> snd p \<noteq> []) fds \<Longrightarrow>
   fst ` set fds \<inter> fst ` set (sort_opt s) = {} \<Longrightarrow>
   sort_opt (foldl (\<lambda>s p. addSort (JStr (fst p)) (JStr (snd p)) s) s fds)
   = sort_opt s @ map (\<lambda>p. (fst p, JStr (snd p))) fds"
proof (induction fds arbitrary: s)
  case Nil
  then show ?case by simp
next
  case (Cons p fds)
  have one: "sort_opt (addSort (JStr (fst p)) (JStr (snd p)) s) = sort_opt s @ [(fst p, JStr (snd p))]"
    using Cons.prems by (simp add: addSort_def js_or_def obj_set_fresh)
  have "fst ` set fds \<inter> fst ` set (sort_opt (addSort (JStr (fst p)) (JStr (snd p)) s)) = {}"
    using Cons.prems by (auto simp: one)
  with Cons show ?case
    by (simp add: one)
qed

text \<open>Fields that are not array indices come out in the order they were added, and a
  field added again keeps its place.\<close>

lemma getSortString_addSort:
  assumes "distinct (map fst fds)"
    and "list_all (\<lambda>p. fst p \<noteq> [] \<and> snd p \<noteq> [] \<and> \<not> is_array_index (fst p)) fds"
    and "sort_opt s = []"
  shows "getSortString (foldl (\<lambda>s p. addSort (JStr (fst p)) (JStr (snd p)) s) s fds)
         = join_with '';'' (map (\<lambda>p. snd p @ fst p) fds)"
proof -
  have "sort_opt (foldl (\<lambda>s p. addSort (JStr (fst p)) (JStr (snd p)) s) s fds)
        = map (\<lambda>p. (fst p, JStr (snd p))) fds"
    using assms addSort_all[of fds s] by (simp add: list_all_iff)
  then show ?thesis
    using assms(2) by (simp add: getSortString_entries list_all_iff comp_def)
qed

lemma obj_set_present:
  "distinct (map fst ps) \<Longrightarrow> k \<in> fst ` set ps \<Longrightarrow>
   obj_set ps k v = map (\<lambda>p. if fst p = k then (k, v) else p) ps"
proof (induction ps)
  case Nil
  then show ?case by simp
next
  case (Cons p ps)
  show ?case
  proof (cases "fst p = k")
    case True
    then have "k \<notin> fst ` set ps"
      using Cons.prems by auto
    then have "map (\<lambda>p. if fst p = k then (k, v) else p) ps = ps"
      by (induction ps) auto
    with True show ?thesis by (cases p) simp
  next
    case False
    with Cons show ?thesis by (cases p) auto
  qed
qed

lemma getSortString_readd:
  assumes "distinct (map fst fds)"
    and "list_all (\<lambda>p. \<not> is_array_index (fst p)) fds"
    and "sort_opt s = map (\<lambda>p. (fst p, JStr (snd p))) fds"
    and "f \<in> fst ` set fds" and "f \<noteq> []" and "d \<noteq> []"
  shows "getSortString (addSort (JStr f) (JStr d) s)
         = join_with '';'' (map (\<lambda>p. (if fst p = f then d else snd p) @ fst p) fds)"
proof -
  have "sort_opt (addSort (JStr f) (JStr d) s)
        = map (\<lambda>p. (fst p, JStr (if fst p = f then d else snd p))) fds"
    using assms obj_set_present[of "sort_opt s" f "JStr d"]
    by (simp add: addSort_def js_or_def comp_def image_image)
  then show ?thesis
    using assms(2) by (simp add: getSortString_entries list_all_iff comp_def)
qed

section \<open>The scroll call\<close>

lemma keys_custom_fold:
  "fst ` set (foldl (\<lambda>ps p. obj_set ps (fst p) (snd p)) a es) = fst ` set a \<union> fst ` set es"
  by (induction es arbitrary: a) (auto simp: keys_obj_set)

lemma read_custom_fold:
  "k \<notin> fst ` set es \<Longrightarrow> obj_read (foldl (\<lambda>ps p. obj_set ps (fst p) (snd p)) a es) k = obj_read a k"
  by (induction es arbitrary: a) (auto simp: obj_read_obj_set)

lemma keys_set_truthy: "fst ` set (set_truthy ob k v) \<subseteq> insert k (fst ` set ob)"
  by (auto simp: set_truthy_def keys_obj_set)

lemma keys_set_truthy_other: "k' \<noteq> k \<Longrightarrow> (k' \<in> fst ` set (set_truthy ob k v)) = (k' \<in> fst ` set ob)"
  by (auto simp: set_truthy_def keys_obj_set)

lemma read_set_truthy_other: "k' \<noteq> k \<Longrightarrow> obj_read (set_truthy ob k v) k' = obj_read ob k'"
  by (simp add: set_truthy_def obj_read_obj_set)

lemma set_joined_cases:
  assumes "joinable temp"
  obtains ob' where "set_joined ob k sep temp = Inr ob'"
    and "\<And>k'. k' \<noteq> k \<Longrightarrow> (k' \<in> fst ` set ob') = (k' \<in> fst ` set ob)"
    and "\<And>k'. k' \<noteq> k \<Longrightarrow> obj_read ob' k' = obj_read ob k'"
  using assms
  by (cases temp) (auto simp: set_joined_def joinable_def keys_obj_set obj_read_obj_set)

lemma haquery_scroll_keys:
  "fst ` set (haquery parseString goneEmpty ''scroll'' s) \<subseteq> {''query'', ''config'', ''filter'', ''kvpairs''}"
proof -
  have "fst ` set (set_truthy (set_truthy [(''query'', q), (''config'', c)] ''filter'' a) ''kvpairs'' b)
        \<subseteq> {''query'', ''config'', ''filter'', ''kvpairs''}" for q c a b
    using keys_set_truthy[of "set_truthy [(''query'', q), (''config'', c)] ''filter'' a" "''kvpairs''" b]
      keys_set_truthy[of "[(''query'', q), (''config'', c)]" "''filter''" a]
    by auto
  then show ?thesis
    by (simp add: haquery_def Let_def)
qed

lemma extract_no_opts_scroll:
  "extract_opts no_call_opts ''scroll'' s = Inr (s\<lparr> searchType := JStr ''scan'' \<rparr>)"
  by (simp add: extract_opts_def no_call_opts_def when_truthy_def setSearchType_def
      SEARCH_TYPE_SCAN_def Let_def)


lemma keys_custom_merged:
  "fst ` set (foldl (\<lambda>ps p. obj_set ps (fst p) (snd p))
      [(''query'', q), (''index_name'', i), (''Format'', f)] (own_entries c))
   = {''query'', ''index_name'', ''Format''} \<union> fst ` set c"
  unfolding keys_custom_fold set_own_entries by simp

lemma search_only_key_final:
  assumes k2: "\<And>k'. k' \<noteq> ''fetch_fields'' \<Longrightarrow> (k' \<in> fst ` set p2) = (k' \<in> fst ` set p1)"
    and keys1: "fst ` set p1 = {''query'', ''index_name'', ''Format''} \<union> C"
    and "k \<in> set [''formula_name'', ''first_formula_name'', ''summary'', ''qp'', ''disable'']"
  shows "(k \<in> fst ` set (obj_set (obj_set (obj_set p2 ''scroll'' a) ''scroll_id'' b) ''search_type'' c)) = (k \<in> C)"
proof -
  have "k \<noteq> ''fetch_fields''" "k \<noteq> ''scroll''" "k \<noteq> ''scroll_id''" "k \<noteq> ''search_type''"
    "k \<noteq> ''query''" "k \<noteq> ''index_name''" "k \<noteq> ''Format''"
    using assms(3) by auto
  then show ?thesis
    using k2[of k] by (simp add: keys_obj_set keys1)
qed


lemma callQuery_params_scroll:
  assumes "scroll s = JStr ''1m''" and "scrollId s = JStr ''abc''"
    and "goneEmpty (JStr ''1m'') = JStr ''1m''" and "goneEmpty (JStr ''abc'') = JStr ''abc''"
    and "set_joined (foldl (\<lambda>ps p. obj_set ps (fst p) (snd p))
           [(''query'', JStr (replace_all CHR ''&'' ''&&'' (parseString (JObj (haquery parseString goneEmpty ''scroll'' s)) []))),
            (''index_name'', JStr (js_join '';'' (indexes s))), (''Format'', format s)]
           (own_entries (customParams s))) ''fetch_fields'' '';'' (goneEmpty (JArr (fetches s))) = Inr p2"
  shows "callQuery_params parseString goneEmpty ''scroll'' s
     = Inr (obj_set (obj_set (obj_set p2 ''scroll'' (JStr ''1m'')) ''scroll_id'' (JStr ''abc''))
        ''search_type'' (JStr ''scan''))"
  unfolding callQuery_params_def Let_def
  by (simp add: assms set_truthy_def SEARCH_TYPE_SCAN_def)

lemma query_read_final:
  assumes "''query'' \<notin> fst ` set c"
    and "obj_read p2 ''query'' = obj_read (foldl (\<lambda>ps p. obj_set ps (fst p) (snd p))
      [(''query'', q), (''index_name'', i), (''Format'', f)] (own_entries c)) ''query''"
  shows "obj_read (obj_set (obj_set (obj_set p2 ''scroll'' a) ''scroll_id'' b) ''search_type'' d) ''query'' = q"
proof -
  have "obj_read (foldl (\<lambda>ps p. obj_set ps (fst p) (snd p))
      [(''query'', q), (''index_name'', i), (''Format'', f)] (own_entries c)) ''query''
      = obj_read [(''query'', q), (''index_name'', i), (''Format'', f)] ''query''"
    using assms(1) by (intro read_custom_fold) (simp add: set_own_entries)
  also have "\<dots> = q"
    by (simp add: obj_read_def)
  finally show ?thesis
    using assms(2) by (simp add: obj_read_obj_set)
qed

section \<open>Claims\<close>

text \<open>
  C1. The canonical map before signing. The code sorts the keys and sets the kept
  ones, in that order, on a new object (\<open>paramsFilter_sorted\<close>, \<open>paramsFilter_enumerated\<close>),
  and the spec's example comes out as the spec says. But an object enumerates its
  array-index keys first, in numeric order, whatever the order of their creation:
  with the keys \<open>9\<close> and \<open>10\<close> the filtered map is enumerated \<open>9\<close>, \<open>10\<close>, and the
  ascending order of the two strings is \<open>10\<close>, \<open>9\<close>.
\<close>

theorem paramsFilter_array_index_keys:
  "own_keys (paramsFilter [(''9'', JStr ''a''), (''10'', JStr ''b'')]) = [''9'', ''10'']
   \<and> sort [''9'', ''10''] = [''10'', ''9'']
   \<and> paramsFilter [(''A'', JStr ''''), (''B'', JNum 0), (''C'', JStr ''x''), (''Signature'', JStr ''old'')]
       = [(''B'', JNum 0), (''C'', JStr ''x'')]"
  by (simp add: paramsFilter_def own_keys_def own_entries_def obj_read_def is_array_index_def
      is_digit_def index_value_def)



text \<open>
  C3. The adders do throw. \<open>addFetchFields\<close> throws a \<open>TypeError\<close> on every field
  name and on every non-empty list of names, whatever the state of the builder (it
  looks for \<open>indexOf\<close> on the options object); \<open>addIndex\<close> throws on every non-empty
  list (it reads \<open>self.indexes\<close>, not \<open>self._opts.indexes\<close>) and on a missing
  argument.
\<close>

theorem add_mutators_throw:
  "addFetchFields (JStr f) s = Inl TypeError
   \<and> addFetchFields (JArr (x # xs)) s = Inl TypeError
   \<and> addFetchFields JUndefined s = Inl TypeError
   \<and> addIndex (JArr (x # xs)) s = Inl TypeError
   \<and> addIndex JUndefined s = Inl TypeError"
  by (simp add: addFetchFields_def addIndex_def)

text \<open>
  C4. \<open>addIndex\<close> does not deduplicate: a name is pushed whether or not the list has
  it, the empty name as well, and a non-empty list of names throws.
\<close>

theorem addIndex_no_dedup:
  "addIndex (JStr ''idx1'') (s\<lparr> indexes := [JStr ''idx1''] \<rparr>)
     = Inr (s\<lparr> indexes := [JStr ''idx1'', JStr ''idx1''] \<rparr>)
   \<and> addIndex (JArr [JStr ''idx1'']) s = Inl TypeError
   \<and> addIndex (JStr '''') s = Inr (s\<lparr> indexes := indexes s @ [JStr ''''] \<rparr>)"
  by (simp add: addIndex_def)

text \<open>
  C5. Sort fields come out in the order they were added, and a field added again
  keeps its place (\<open>getSortString_addSort\<close>, \<open>getSortString_readd\<close>), unless a field
  is an array index: \<open>for (k in sort)\<close> visits array-index keys first. After
  \<open>addSort('b', '+')\<close> and \<open>addSort('1', '-')\<close> the string is \<open>-1;+b\<close>.
\<close>

theorem getSortString_array_index_field:
  "getSortString (addSort (JStr ''1'') (JStr ''-'') (addSort (JStr ''b'') (JStr ''+'') (s\<lparr> sort_opt := [] \<rparr>)))
     = ''-1;+b''
   \<and> getSortString (addSort (JStr ''a'') (JStr ''-'') (addSort (JStr ''b'') (JStr ''+'') (s\<lparr> sort_opt := [] \<rparr>)))
     = ''+b;-a''"
  by (simp add: getSortString_def addSort_def js_or_def own_entries_def is_array_index_def
      is_digit_def index_value_def strip_last_def SORT_DECREASE_def)

text \<open>
  C6. A scroll call without one-shot options, from a state whose scroll is \<open>1m\<close> and
  whose scroll id is \<open>abc\<close>, given that \<open>s2.goneEmpty\<close> returns these two strings as
  they are and returns an array or a falsy value for the list of fetch fields. The
  call yields a param map with \<open>search_type\<close>, \<open>scroll\<close> and \<open>scroll_id\<close> as said.
  A search-only key is in the map exactly when it is the name of a custom
  parameter of the builder; the clause object has no clause but \<open>query\<close>, \<open>config\<close>,
  \<open>filter\<close> and \<open>kvpairs\<close>, and its serialization is the map's \<open>query\<close> unless a
  custom parameter of that name replaces it.
\<close>

theorem scroll_call_params:
  assumes sc: "scroll s = JStr ''1m''" and sid: "scrollId s = JStr ''abc''"
    and g1: "goneEmpty (JStr ''1m'') = JStr ''1m''" and g2: "goneEmpty (JStr ''abc'') = JStr ''abc''"
    and gf: "joinable (goneEmpty (JArr (fetches s)))"
  shows "\<exists>s1 params.
           scroll_call parseString goneEmpty no_call_opts s = Inr (s1, params)
         \<and> obj_read params ''search_type'' = JStr ''scan''
         \<and> obj_read params ''scroll'' = JStr ''1m''
         \<and> obj_read params ''scroll_id'' = JStr ''abc''
         \<and> (\<forall>k \<in> set [''formula_name'', ''first_formula_name'', ''summary'', ''qp'', ''disable''].
               (k \<in> fst ` set params) = (k \<in> fst ` set (customParams s)))
         \<and> fst ` set (haquery parseString goneEmpty ''scroll'' s1) \<subseteq> {''query'', ''config'', ''filter'', ''kvpairs''}
         \<and> (''query'' \<notin> fst ` set (customParams s) \<longrightarrow>
              obj_read params ''query''
                = JStr (replace_all CHR ''&'' ''&&'' (parseString (JObj (haquery parseString goneEmpty ''scroll'' s1)) [])))"
proof -
  let ?s1 = "s\<lparr> searchType := JStr ''scan'' \<rparr>"
  let ?q = "JStr (replace_all CHR ''&'' ''&&'' (parseString (JObj (haquery parseString goneEmpty ''scroll'' ?s1)) []))"
  let ?p1 = "foldl (\<lambda>ps p. obj_set ps (fst p) (snd p))
      [(''query'', ?q), (''index_name'', JStr (js_join '';'' (indexes ?s1))), (''Format'', format ?s1)]
      (own_entries (customParams ?s1))"
  have gf1: "joinable (goneEmpty (JArr (fetches ?s1)))"
    using gf by simp
  obtain p2 where p2: "set_joined ?p1 ''fetch_fields'' '';'' (goneEmpty (JArr (fetches ?s1))) = Inr p2"
    and k2: "\<And>k'. k' \<noteq> ''fetch_fields'' \<Longrightarrow> (k' \<in> fst ` set p2) = (k' \<in> fst ` set ?p1)"
    and r2: "\<And>k'. k' \<noteq> ''fetch_fields'' \<Longrightarrow> obj_read p2 k' = obj_read ?p1 k'"
    using set_joined_cases[OF gf1] by blast
  let ?params = "obj_set (obj_set (obj_set p2 ''scroll'' (JStr ''1m'')) ''scroll_id'' (JStr ''abc''))
        ''search_type'' (JStr ''scan'')"
  have "scroll ?s1 = JStr ''1m''" "scrollId ?s1 = JStr ''abc''"
    using sc sid by simp_all
  then have "callQuery_params parseString goneEmpty ''scroll'' ?s1 = Inr ?params"
    using g1 g2 p2 by (rule callQuery_params_scroll)
  then have call: "scroll_call parseString goneEmpty no_call_opts s = Inr (?s1, ?params)"
    by (simp add: scroll_call_def extract_no_opts_scroll)
  have keys: "\<forall>k \<in> set [''formula_name'', ''first_formula_name'', ''summary'', ''qp'', ''disable''].
      (k \<in> fst ` set ?params) = (k \<in> fst ` set (customParams s))"
  proof
    fix k
    assume "k \<in> set [''formula_name'', ''first_formula_name'', ''summary'', ''qp'', ''disable'']"
    with k2 keys_custom_merged[of ?q "JStr (js_join '';'' (indexes ?s1))" "format ?s1" "customParams ?s1"]
    have "(k \<in> fst ` set ?params) = (k \<in> fst ` set (customParams ?s1))"
      by (rule search_only_key_final)
    then show "(k \<in> fst ` set ?params) = (k \<in> fst ` set (customParams s))"
      by simp
  qed
  have q: "''query'' \<notin> fst ` set (customParams s) \<longrightarrow> obj_read ?params ''query'' = ?q"
  proof
    assume "''query'' \<notin> fst ` set (customParams s)"
    then have "''query'' \<notin> fst ` set (customParams ?s1)"
      by simp
    moreover have "obj_read p2 ''query'' = obj_read ?p1 ''query''"
      by (rule r2) simp
    ultimately show "obj_read ?params ''query'' = ?q"
      by (rule query_read_final)
  qed
  have reads: "obj_read ?params ''search_type'' = JStr ''scan''" "obj_read ?params ''scroll'' = JStr ''1m''"
    "obj_read ?params ''scroll_id'' = JStr ''abc''"
    by (simp_all add: obj_read_obj_set)
  from call reads keys q haquery_scroll_keys[of parseString goneEmpty ?s1]
  show ?thesis
    by blast
qed


theorem scroll_call_params_witness:
  "\<exists>s1 params.
      scroll_call parseString_spec goneEmpty_spec no_call_opts
        (addSort (JStr ''price'') (JStr ''+'') (setFormulaName (JStr ''f1'')
          (setScrollId (JStr ''abc'') (setScroll (JStr ''1m'') search_default_opts))))
        = Inr (s1, params)
    \<and> obj_read params ''search_type'' = JStr ''scan''
    \<and> obj_read params ''scroll'' = JStr ''1m''
    \<and> obj_read params ''scroll_id'' = JStr ''abc''
    \<and> ''formula_name'' \<notin> fst ` set params
    \<and> ''sort'' \<notin> fst ` set (haquery parseString_spec goneEmpty_spec ''scroll'' s1)"
proof -
  let ?s = "addSort (JStr ''price'') (JStr ''+'') (setFormulaName (JStr ''f1'')
          (setScrollId (JStr ''abc'') (setScroll (JStr ''1m'') search_default_opts)))"
  have h: "scroll ?s = JStr ''1m''" "scrollId ?s = JStr ''abc''"
    "goneEmpty_spec (JStr ''1m'') = JStr ''1m''" "goneEmpty_spec (JStr ''abc'') = JStr ''abc''"
    "joinable (goneEmpty_spec (JArr (fetches ?s)))"
    by (simp_all add: addSort_def setFormulaName_def setScrollId_def setScroll_def
        search_default_opts_def goneEmpty_spec_def joinable_def)
  have c: "customParams ?s = []"
    by (simp add: addSort_def setFormulaName_def setScrollId_def setScroll_def search_default_opts_def)
  from scroll_call_params[OF h, of parseString_spec]
  obtain s1 params where r: "scroll_call parseString_spec goneEmpty_spec no_call_opts ?s = Inr (s1, params)"
    "obj_read params ''search_type'' = JStr ''scan''" "obj_read params ''scroll'' = JStr ''1m''"
    "obj_read params ''scroll_id'' = JStr ''abc''"
    and k: "\<forall>k \<in> set [''formula_name'', ''first_formula_name'', ''summary'', ''qp'', ''disable''].
               (k \<in> fst ` set params) = (k \<in> fst ` set (customParams ?s))"
    and hq: "fst ` set (haquery parseString_spec goneEmpty_spec ''scroll'' s1) \<subseteq> {''query'', ''config'', ''filter'', ''kvpairs''}"
    by blast
  from k have "''formula_name'' \<notin> fst ` set params"
    by (simp add: c)
  moreover from hq have "''sort'' \<notin> fst ` set (haquery parseString_spec goneEmpty_spec ''scroll'' s1)"
    by auto
  ultimately show ?thesis
    using r by blast
qed


theorem scroll_call_params_counterexample:
  "(case scroll_call parseString_spec goneEmpty_spec no_call_opts
           (addCustomParam (JStr ''formula_name'') (JStr ''f'')
             (setScrollId (JStr ''abc'') (setScroll (JStr ''1m'') search_default_opts))) of
      Inl err \<Rightarrow> False
    | Inr r \<Rightarrow> obj_read (snd r) ''formula_name'' = JStr ''f'')"
  by (simp add: scroll_call_def extract_no_opts_scroll callQuery_params_def Let_def
      addCustomParam_def setScrollId_def setScroll_def search_default_opts_def
      goneEmpty_spec_def set_joined_def set_truthy_def own_entries_def is_array_index_def
      is_digit_def obj_read_def SEARCH_TYPE_SCAN_def)

text \<open>
  C7. The provider encoding is the serializer's result with every \<open>*\<close>, \<open>!\<close>, \<open>'\<close>,
  \<open>(\<close> and \<open>)\<close> replaced by \<open>%2A\<close>, \<open>%21\<close>, \<open>%27\<close>, \<open>%28\<close> and \<open>%29\<close>: the five
  replacements, done one after the other, are one substitution, since no replacement
  text holds a character that a later one replaces. With the standard
  percent-encoding as the serializer, \<open>a*b!c'd(e)f\<close> becomes \<open>a%2Ab%21c%27d%28e%29f\<close>.
\<close>

theorem percentEncode_fixups:
  "percentEncode parseString code = concat (map provider_fixup (parseString code [JBool True]))
   \<and> percentEncode parseString_spec (JStr ''a*b!c'd(e)f'') = ''a%2Ab%21c%27d%28e%29f''"
proof
  show "percentEncode parseString code = concat (map provider_fixup (parseString code [JBool True]))"
    by (simp add: percentEncode_def Let_def replace_chain)
  have "parseString_spec (JStr ''a*b!c'd(e)f'') [JBool True] = ''a*b!c'd(e)f''"
    by (simp add: parseString_spec_def nth_arg_def encodeURIComponent_def is_unreserved_def
        is_digit_def Let_def)
  then show "percentEncode parseString_spec (JStr ''a*b!c'd(e)f'') = ''a%2Ab%21c%27d%28e%29f''"
    by (simp add: percentEncode_def Let_def replace_all_def)
qed

text \<open>
  C8. A call does write the stored configuration: \<open>opts\<close> in \<open>callRequest\<close> is the
  stored object, and \<open>opts.method = method || opts.method\<close> stores the method of the
  call, which \<open>_signAliyun\<close> and \<open>_httpRequest\<close> then read from it. Every other field
  is left as it was.
\<close>

theorem callRequest_config:
  "fst (callRequest hmac parseString e opts path0 params m)
     = opts\<lparr> method_opt := (if m \<noteq> [] then m else method_opt opts) \<rparr>"
  by (simp add: callRequest_def Let_def)

theorem callRequest_config_witness:
  "fst (callRequest (\<lambda>alg key msg. msg) parseString_spec
          \<lparr> now = 1700000000000, random4 = 1234, utcDate = ''2023-11-14T22:13:20Z'' \<rparr>
          client_default_opts ''/search'' [] '''')
     = client_default_opts"
  using callRequest_config[of "\<lambda>alg key msg. msg" parseString_spec
      "\<lparr> now = 1700000000000, random4 = 1234, utcDate = ''2023-11-14T22:13:20Z'' \<rparr>"
      client_default_opts "''/search''" "[]" "''''"]
  by simp

theorem callRequest_config_counterexample:
  "method_opt (fst (callRequest (\<lambda>alg key msg. msg) parseString_spec
          \<lparr> now = 1700000000000, random4 = 1234, utcDate = ''2023-11-14T22:13:20Z'' \<rparr>
          client_default_opts ''/search'' [] ''POST'')) = ''POST''
   \<and> method_opt client_default_opts = ''GET''"
  by (simp add: callRequest_def Let_def client_default_opts_def)

text \<open>
  C9. \<open>addQPName\<close> and \<open>addDisabledFunction\<close> never add a value: after any calls the
  list of QP names is the list it was, and the list stored for a function name has
  the elements it had (none, for a name that had no list).
\<close>

theorem add_by_concat_keeps_lists:
  "QPName (foldl (\<lambda>s v. addQPName v s) s names) = QPName s
   \<and> obj_list (functions_opt (foldl (\<lambda>s c. addDisabledFunction (fst c) (snd c) s) s calls)) k
       = obj_list (functions_opt s) k"
proof
  show "QPName (foldl (\<lambda>s v. addQPName v s) s names) = QPName s"
    by (induction names arbitrary: s) (simp_all add: addQPName_def Let_def)
  have step: "obj_list (functions_opt (addDisabledFunction f v s)) k = obj_list (functions_opt s) k" for f v s
    by (simp add: addDisabledFunction_def Let_def obj_list_def map_of_obj_set)
  show "obj_list (functions_opt (foldl (\<lambda>s c. addDisabledFunction (fst c) (snd c) s) s calls)) k
       = obj_list (functions_opt s) k"
    by (induction calls arbitrary: s) (simp_all add: step)
qed

theorem add_by_concat_keeps_lists_witness:
  "QPName (foldl (\<lambda>s v. addQPName v s) search_default_opts [JStr ''qp1'', JStr ''qp2'']) = []
   \<and> obj_list (functions_opt (foldl (\<lambda>s c. addDisabledFunction (fst c) (snd c) s) search_default_opts
        [(JStr ''qp'', JStr ''spell_check''), (JStr ''qp'', JStr ''stop_word'')])) ''qp'' = []"
  using add_by_concat_keeps_lists[of search_default_opts "[JStr ''qp1'', JStr ''qp2'']"
      "[(JStr ''qp'', JStr ''spell_check''), (JStr ''qp'', JStr ''stop_word'')]" "''qp''"]
  by (simp add: search_default_opts_def obj_list_def)

text \<open>
  C10. \<open>setHits\<close> stores its argument when that is truthy and \<open>20\<close> otherwise, so
  \<open>setHits(0)\<close> stores \<open>20\<close> and \<open>getHits\<close> is never \<open>0\<close> after it.
\<close>

theorem setHits_falsy_default:
  "hits (setHits h s) = (if truthy h then h else JNum 20)
   \<and> hits (setHits (JNum 0) s) = JNum 20
   \<and> getHits (setHits h s) \<noteq> JNum 0"
  by (auto simp: setHits_def getHits_def js_or_def)

theorem setHits_falsy_default_witness:
  "hits (setHits (JNum 5) search_default_opts) = JNum 5
   \<and> hits (setHits (JStr '''') search_default_opts) = JNum 20
   \<and> getHits (setHits (JNum 0) search_default_opts) \<noteq> JNum 0"
  using setHits_falsy_default[of "JNum 5" search_default_opts]
    setHits_falsy_default[of "JStr ''''" search_default_opts]
    setHits_falsy_default[of "JNum 0" search_default_opts]
  by simp

end
